theory Spec2Isabelle
  imports Complex_Main
begin

section \<open>Data model\<close>

text \<open>
  The backend classes of \<^verbatim>\<open>main.py\<close>. A Python number (an int quantity typed into the
  form, a float coefficient or weight) is an exact rational here: the arithmetic is the
  one the source writes, without the representation error of binary64.
\<close>

record ingrediente =
  nome :: string
  carboidrato_por_g :: rat
  proteina_por_g :: rat
  gordura_por_g :: rat
  fibra_por_g :: rat
  sodio_por_g :: rat

record receita =
  nome :: string
  ingredientes :: "(ingrediente \<times> rat) list"
  rendimento_total :: rat

text \<open>
  The dictionaries written to and read from the two JSON files. An ingredient item has
  the six keys of \<^verbatim>\<open>Ingrediente.to_dict\<close>; a recipe item names its ingredients, and
  its key \<^verbatim>\<open>rendimento_total\<close> may be absent (the loader reads it with
  \<^verbatim>\<open>item.get\<close> and a default).
\<close>

record ingrediente_dict =
  nome :: string
  carboidrato_por_g :: rat
  proteina_por_g :: rat
  gordura_por_g :: rat
  fibra_por_g :: rat
  sodio_por_g :: rat

record receita_dict =
  nome :: string
  ingredientes :: "(string \<times> rat) list"
  rendimento_total :: "rat option"

text \<open>The two files of \<^verbatim>\<open>DataManager\<close>; \<open>None\<close> is a file that does not exist.\<close>

record disco =
  INGREDIENTES_FILE :: "ingrediente_dict list option"
  RECEITAS_FILE :: "receita_dict list option"

datatype erro = ValueError string | TypeError | KeyError string | ZeroDivisionError

section \<open>DataManager\<close>

definition to_dict :: "ingrediente \<Rightarrow> ingrediente_dict" where
  "to_dict i =
     \<lparr>ingrediente_dict.nome = ingrediente.nome i,
      ingrediente_dict.carboidrato_por_g = ingrediente.carboidrato_por_g i,
      ingrediente_dict.proteina_por_g = ingrediente.proteina_por_g i,
      ingrediente_dict.gordura_por_g = ingrediente.gordura_por_g i,
      ingrediente_dict.fibra_por_g = ingrediente.fibra_por_g i,
      ingrediente_dict.sodio_por_g = ingrediente.sodio_por_g i\<rparr>"

definition carregar_ingredientes :: "disco \<Rightarrow> ingrediente list" where
  "carregar_ingredientes d =
     (case INGREDIENTES_FILE d of
        None \<Rightarrow> []
      | Some dados \<Rightarrow>
          map (\<lambda>item.
                 \<lparr>ingrediente.nome = ingrediente_dict.nome item,
                  ingrediente.carboidrato_por_g = ingrediente_dict.carboidrato_por_g item,
                  ingrediente.proteina_por_g = ingrediente_dict.proteina_por_g item,
                  ingrediente.gordura_por_g = ingrediente_dict.gordura_por_g item,
                  ingrediente.fibra_por_g = ingrediente_dict.fibra_por_g item,
                  ingrediente.sodio_por_g = ingrediente_dict.sodio_por_g item\<rparr>) dados)"

definition salvar_ingredientes :: "ingrediente list \<Rightarrow> disco \<Rightarrow> disco" where
  "salvar_ingredientes ings d = d\<lparr>INGREDIENTES_FILE := Some (map to_dict ings)\<rparr>"

text \<open>
  The inner loop of \<^verbatim>\<open>carregar_receitas\<close>: each stored pair is looked up with
  \<^verbatim>\<open>next((i for i in ingredientes if i.nome == nome_ing), None)\<close> and appended only
  when an ingredient was found.
\<close>

fun ingredientes_receita :: "ingrediente list \<Rightarrow> (string \<times> rat) list \<Rightarrow> (ingrediente \<times> rat) list" where
  "ingredientes_receita ings [] = []"
| "ingredientes_receita ings ((nome_ing, qtd) # resto) =
     (case find (\<lambda>i. ingrediente.nome i = nome_ing) ings of
        None \<Rightarrow> ingredientes_receita ings resto
      | Some i \<Rightarrow> (i, qtd) # ingredientes_receita ings resto)"

definition carregar_item :: "ingrediente list \<Rightarrow> receita_dict \<Rightarrow> receita" where
  "carregar_item ings item =
     (let ir = ingredientes_receita ings (receita_dict.ingredientes item)
      in \<lparr>receita.nome = receita_dict.nome item,
          receita.ingredientes = ir,
          receita.rendimento_total =
            (case receita_dict.rendimento_total item of
               Some y \<Rightarrow> y
             | None \<Rightarrow> sum_list (map snd ir))\<rparr>)"

text \<open>
  \<^verbatim>\<open>carregar_receitas\<close> wraps its body in \<^verbatim>\<open>try\<close> and answers an exception
  with an alert and the empty list. The exceptions of the body come from reading and
  parsing the file and from an item of another shape; the items here are typed, so the
  body always reaches its \<^verbatim>\<open>return receitas\<close>.
\<close>

definition carregar_receitas :: "ingrediente list \<Rightarrow> disco \<Rightarrow> receita list" where
  "carregar_receitas ings d =
     (case RECEITAS_FILE d of
        None \<Rightarrow> []
      | Some dados \<Rightarrow> map (carregar_item ings) dados)"

definition salvar_item :: "receita \<Rightarrow> receita_dict" where
  "salvar_item r =
     \<lparr>receita_dict.nome = receita.nome r,
      receita_dict.ingredientes = map (\<lambda>(ing, qtd). (ingrediente.nome ing, qtd)) (receita.ingredientes r),
      receita_dict.rendimento_total = Some (receita.rendimento_total r)\<rparr>"

definition salvar_receitas :: "receita list \<Rightarrow> disco \<Rightarrow> disco" where
  "salvar_receitas rs d = d\<lparr>RECEITAS_FILE := Some (map salvar_item rs)\<rparr>"

definition DataManager_deletar_ingrediente :: "string \<Rightarrow> disco \<Rightarrow> disco" where
  "DataManager_deletar_ingrediente n d =
     salvar_ingredientes (filter (\<lambda>i. ingrediente.nome i \<noteq> n) (carregar_ingredientes d)) d"

text \<open>
  A call of \<^verbatim>\<open>carregar_receitas\<close> with its positional arguments as a list: Python
  binds them to the one parameter \<^verbatim>\<open>ingredientes\<close> before the body (and its
  \<^verbatim>\<open>try\<close>) starts, and raises TypeError when their number is not one.
\<close>

definition chamar_carregar_receitas :: "ingrediente list list \<Rightarrow> disco \<Rightarrow> erro + receita list" where
  "chamar_carregar_receitas args d =
     (case args of
        [ings] \<Rightarrow> Inr (carregar_receitas ings d)
      | _ \<Rightarrow> Inl TypeError)"

text \<open>\<^verbatim>\<open>deletar_receita\<close> calls \<^verbatim>\<open>cls.carregar_receitas()\<close>, with no argument.\<close>

definition deletar_receita :: "string \<Rightarrow> disco \<Rightarrow> (erro + unit) \<times> disco" where
  "deletar_receita n d =
     (case chamar_carregar_receitas [] d of
        Inl e \<Rightarrow> (Inl e, d)
      | Inr rs \<Rightarrow> (Inr (), salvar_receitas (filter (\<lambda>r. receita.nome r \<noteq> n) rs) d))"

section \<open>CalculadoraNutricional\<close>

text \<open>The dictionary \<^verbatim>\<open>totais\<close>, whose six keys are fixed by the source.\<close>

record totais =
  carboidratos :: rat
  proteina :: rat
  gordura :: rat
  fibra :: rat
  sodio :: rat
  calorias :: rat

definition totais_iniciais :: totais where
  "totais_iniciais =
     \<lparr>carboidratos = 0, proteina = 0, gordura = 0, fibra = 0, sodio = 0, calorias = 0\<rparr>"

text \<open>
  \<^verbatim>\<open>round(v, 2)\<close>: Python rounds to the nearest multiple of 1/100 and an exact tie
  goes to the even one.
\<close>

definition round2 :: "rat \<Rightarrow> rat" where
  "round2 v =
     (let s = v * 100; f = \<lfloor>s\<rfloor>; d = s - of_int f
      in of_int (if d < 1 / 2 then f
                 else if 1 / 2 < d then f + 1
                 else if even f then f else f + 1) / 100)"

definition arredondar :: "totais \<Rightarrow> totais" where
  "arredondar t =
     \<lparr>carboidratos = round2 (carboidratos t),
      proteina = round2 (proteina t),
      gordura = round2 (gordura t),
      fibra = round2 (fibra t),
      sodio = round2 (sodio t),
      calorias = round2 (calorias t)\<rparr>"

text \<open>The body of the inner loop, for one pair of a recipe.\<close>

definition somar_ingrediente :: "rat \<Rightarrow> totais \<Rightarrow> ingrediente \<times> rat \<Rightarrow> totais" where
  "somar_ingrediente fator t p =
     (case p of (ing, qtd) \<Rightarrow>
        let quantidade_efetiva = qtd * fator
        in \<lparr>carboidratos = carboidratos t + quantidade_efetiva * ingrediente.carboidrato_por_g ing,
            proteina = proteina t + quantidade_efetiva * ingrediente.proteina_por_g ing,
            gordura = gordura t + quantidade_efetiva * ingrediente.gordura_por_g ing,
            fibra = fibra t + quantidade_efetiva * ingrediente.fibra_por_g ing,
            sodio = sodio t + quantidade_efetiva * ingrediente.sodio_por_g ing,
            calorias = calorias t +
              (quantidade_efetiva * ingrediente.carboidrato_por_g ing * 4 +
               quantidade_efetiva * ingrediente.proteina_por_g ing * 4 +
               quantidade_efetiva * ingrediente.gordura_por_g ing * 9)\<rparr>)"

fun laco_ingredientes :: "rat \<Rightarrow> totais \<Rightarrow> (ingrediente \<times> rat) list \<Rightarrow> totais" where
  "laco_ingredientes fator t [] = t"
| "laco_ingredientes fator t (p # resto) = laco_ingredientes fator (somar_ingrediente fator t p) resto"

text \<open>The outer loop: the first recipe with a yield that is not positive raises.\<close>

fun laco_receitas :: "totais \<Rightarrow> (receita \<times> rat) list \<Rightarrow> erro + totais" where
  "laco_receitas t [] = Inr t"
| "laco_receitas t ((r, porcao) # resto) =
     (if receita.rendimento_total r \<le> 0 then Inl (ValueError (receita.nome r))
      else laco_receitas
             (laco_ingredientes (porcao / receita.rendimento_total r) t (receita.ingredientes r))
             resto)"

definition calcular_por_porcao :: "(receita \<times> rat) list \<Rightarrow> erro + totais" where
  "calcular_por_porcao receitas_porcoes =
     (case laco_receitas totais_iniciais receitas_porcoes of
        Inl e \<Rightarrow> Inl e
      | Inr t \<Rightarrow> Inr (arredondar t))"

section \<open>ValoresDiarios and GeradorPDF\<close>

text \<open>
  The daily values are the dictionary read from \<^verbatim>\<open>valores_diarios.json\<close>, or the
  built-in one when the file does not exist.
\<close>

definition vd_padrao :: "string \<rightharpoonup> rat" where
  "vd_padrao =
     [''carboidratos'' \<mapsto> 300, ''proteinas'' \<mapsto> 75, ''gorduras_totais'' \<mapsto> 55,
      ''valor_energetico'' \<mapsto> 2000, ''fibras'' \<mapsto> 30, ''sodio'' \<mapsto> 5000]"

definition ValoresDiarios_carregar :: "(string \<rightharpoonup> rat) option \<Rightarrow> (string \<rightharpoonup> rat)" where
  "ValoresDiarios_carregar VD_FILE = (case VD_FILE of None \<Rightarrow> vd_padrao | Some dados \<Rightarrow> dados)"

text \<open>
  One entry of \<^verbatim>\<open>porcentagens\<close>, \<^verbatim>\<open>(v / vd[k]) * 100\<close>: the subscript raises
  KeyError on a missing key and the division raises on a zero divisor.
\<close>

definition porcentagem :: "rat \<Rightarrow> (string \<rightharpoonup> rat) \<Rightarrow> string \<Rightarrow> erro + rat" where
  "porcentagem v vd k =
     (case vd k of
        None \<Rightarrow> Inl (KeyError k)
      | Some ref \<Rightarrow> if ref = 0 then Inl ZeroDivisionError else Inr (v / ref * 100))"

definition ligar :: "erro + 'a \<Rightarrow> ('a \<Rightarrow> erro + 'b) \<Rightarrow> erro + 'b" where
  "ligar m f = (case m of Inl e \<Rightarrow> Inl e | Inr x \<Rightarrow> f x)"

text \<open>\<^verbatim>\<open>int(x)\<close> on a float truncates towards zero.\<close>

definition py_int :: "rat \<Rightarrow> int" where
  "py_int x = (if 0 \<le> x then \<lfloor>x\<rfloor> else \<lceil>x\<rceil>)"

record porcentagens =
  carboidratos :: rat
  proteina :: rat
  gordura :: rat
  kcal :: rat
  fibra :: rat
  sodio :: rat

text \<open>
  The numbers that \<^verbatim>\<open>gerar_tabela_nutricional\<close> formats into the table: the energy
  row, the percentages and the two energies of the footnote. The nutrient rows print
  \<^verbatim>\<open>dados_nutricionais\<close> itself. The function reads the daily values itself, so
  the model takes the content of their file. Number formatting, the file name, the
  portion weight of the header and the PDF library are not part of the model.
\<close>

record tabela =
  kcal :: rat
  kj :: rat
  porcentagens :: porcentagens
  rodape_kcal :: rat
  rodape_kj :: int

definition gerar_tabela_nutricional :: "totais \<Rightarrow> (string \<rightharpoonup> rat) option \<Rightarrow> erro + tabela" where
  "gerar_tabela_nutricional dados_nutricionais VD_FILE =
     (let vd = ValoresDiarios_carregar VD_FILE;
          kcal = totais.carboidratos dados_nutricionais * 4 +
                 totais.proteina dados_nutricionais * 4 +
                 totais.gordura dados_nutricionais * 9;
          kj = kcal * (4184 / 1000)
      in ligar (porcentagem (totais.carboidratos dados_nutricionais) vd ''carboidratos'') (\<lambda>pc.
         ligar (porcentagem (totais.proteina dados_nutricionais) vd ''proteinas'') (\<lambda>pp.
         ligar (porcentagem (totais.gordura dados_nutricionais) vd ''gorduras_totais'') (\<lambda>pg.
         ligar (porcentagem kcal vd ''valor_energetico'') (\<lambda>pk.
         ligar (porcentagem (totais.fibra dados_nutricionais) vd ''fibras'') (\<lambda>pf.
         ligar (porcentagem (totais.sodio dados_nutricionais) vd ''sodio'') (\<lambda>ps.
         case vd ''valor_energetico'' of
           None \<Rightarrow> Inl (KeyError ''valor_energetico'')
         | Some ve \<Rightarrow>
             Inr \<lparr>tabela.kcal = kcal,
                  tabela.kj = kj,
                  tabela.porcentagens =
                    \<lparr>porcentagens.carboidratos = pc, porcentagens.proteina = pp,
                     porcentagens.gordura = pg, porcentagens.kcal = pk,
                     porcentagens.fibra = pf, porcentagens.sodio = ps\<rparr>,
                  tabela.rodape_kcal = ve,
                  tabela.rodape_kj = py_int (ve * (4184 / 1000))\<rparr>)))))))"

section \<open>NutritionApp\<close>

text \<open>
  The part of the window's state that deleting an ingredient reads and writes: the two
  lists loaded at start-up and the ingredient being edited.
\<close>

record nutrition_app =
  ingredientes :: "ingrediente list"
  receitas :: "receita list"
  ingrediente_selecionado :: "ingrediente option"

text \<open>
  \<^verbatim>\<open>_deletar_ingrediente\<close>: \<open>n\<close> is the text of the combo box and \<open>resposta\<close> the
  answer to the confirmation dialog. The handler returns at once on an empty name, on a
  refusal, and does nothing when no ingredient has that name.
\<close>

definition NutritionApp_deletar_ingrediente ::
  "string \<Rightarrow> bool \<Rightarrow> nutrition_app \<times> disco \<Rightarrow> nutrition_app \<times> disco" where
  "NutritionApp_deletar_ingrediente n resposta s =
     (case s of (app, d) \<Rightarrow>
        if n = [] then (app, d)
        else if \<not> resposta then (app, d)
        else (case find (\<lambda>i. ingrediente.nome i = n) (nutrition_app.ingredientes app) of
                None \<Rightarrow> (app, d)
              | Some ing \<Rightarrow>
                  let ings = remove1 ing (nutrition_app.ingredientes app);
                      rs = map (\<lambda>r. r\<lparr>receita.ingredientes :=
                                         filter (\<lambda>(i, qtd). ingrediente.nome i \<noteq> n)
                                                (receita.ingredientes r)\<rparr>)
                               (nutrition_app.receitas app)
                  in (app\<lparr>nutrition_app.ingredientes := ings,
                          nutrition_app.receitas := rs,
                          nutrition_app.ingrediente_selecionado := None\<rparr>,
                      salvar_receitas rs (salvar_ingredientes ings d))))"

section \<open>Closed forms of the accumulated sums\<close>

text \<open>
  What one pair (recipe, portion) adds to a running total whose per-gram coefficient is
  \<open>c\<close>, and the sum over a list of pairs.
\<close>

definition contribuicao :: "(ingrediente \<Rightarrow> rat) \<Rightarrow> receita \<times> rat \<Rightarrow> rat" where
  "contribuicao c rp =
     (case rp of (r, porcao) \<Rightarrow>
        (\<Sum>(ing, qtd)\<leftarrow>receita.ingredientes r. qtd * (porcao / receita.rendimento_total r) * c ing))"

definition soma :: "(ingrediente \<Rightarrow> rat) \<Rightarrow> (receita \<times> rat) list \<Rightarrow> rat" where
  "soma c rps = sum_list (map (contribuicao c) rps)"

definition kcal_por_g :: "ingrediente \<Rightarrow> rat" where
  "kcal_por_g ing =
     ingrediente.carboidrato_por_g ing * 4 + ingrediente.proteina_por_g ing * 4 +
     ingrediente.gordura_por_g ing * 9"

definition somas :: "(receita \<times> rat) list \<Rightarrow> totais" where
  "somas rps =
     \<lparr>totais.carboidratos = soma ingrediente.carboidrato_por_g rps,
      totais.proteina = soma ingrediente.proteina_por_g rps,
      totais.gordura = soma ingrediente.gordura_por_g rps,
      totais.fibra = soma ingrediente.fibra_por_g rps,
      totais.sodio = soma ingrediente.sodio_por_g rps,
      totais.calorias = soma kcal_por_g rps\<rparr>"

definition mais :: "totais \<Rightarrow> totais \<Rightarrow> totais" where
  "mais a b =
     \<lparr>totais.carboidratos = totais.carboidratos a + totais.carboidratos b,
      totais.proteina = totais.proteina a + totais.proteina b,
      totais.gordura = totais.gordura a + totais.gordura b,
      totais.fibra = totais.fibra a + totais.fibra b,
      totais.sodio = totais.sodio a + totais.sodio b,
      totais.calorias = totais.calorias a + totais.calorias b\<rparr>"

definition vezes :: "rat \<Rightarrow> totais \<Rightarrow> totais" where
  "vezes k a =
     \<lparr>totais.carboidratos = k * totais.carboidratos a,
      totais.proteina = k * totais.proteina a,
      totais.gordura = k * totais.gordura a,
      totais.fibra = k * totais.fibra a,
      totais.sodio = k * totais.sodio a,
      totais.calorias = k * totais.calorias a\<rparr>"

section \<open>Concrete inputs\<close>

definition ing_A :: ingrediente where
  "ing_A =
     \<lparr>ingrediente.nome = ''A'', ingrediente.carboidrato_por_g = 8 / 10,
      ingrediente.proteina_por_g = 1 / 10, ingrediente.gordura_por_g = 5 / 100,
      ingrediente.fibra_por_g = 2 / 100, ingrediente.sodio_por_g = 1\<rparr>"

definition ing_B :: ingrediente where
  "ing_B =
     \<lparr>ingrediente.nome = ''B'', ingrediente.carboidrato_por_g = 0,
      ingrediente.proteina_por_g = 0, ingrediente.gordura_por_g = 0,
      ingrediente.fibra_por_g = 0, ingrediente.sodio_por_g = 0\<rparr>"

definition Rice :: receita where
  "Rice =
     \<lparr>receita.nome = ''Rice'', receita.ingredientes = [(ing_A, 500), (ing_B, 500)],
      receita.rendimento_total = 1000\<rparr>"

text \<open>A recipe of one gram of pure carbohydrate, with a yield of one gram.\<close>

definition ing_C :: ingrediente where
  "ing_C =
     \<lparr>ingrediente.nome = ''C'', ingrediente.carboidrato_por_g = 1,
      ingrediente.proteina_por_g = 0, ingrediente.gordura_por_g = 0,
      ingrediente.fibra_por_g = 0, ingrediente.sodio_por_g = 0\<rparr>"

definition Unidade :: receita where
  "Unidade =
     \<lparr>receita.nome = ''Unidade'', receita.ingredientes = [(ing_C, 1)],
      receita.rendimento_total = 1\<rparr>"

definition Vazia :: receita where
  "Vazia = \<lparr>receita.nome = ''Vazia'', receita.ingredientes = [], receita.rendimento_total = 0\<rparr>"

text \<open>
  A catalog with an ingredient whose name is the empty string (the form saves any name),
  a recipe that uses it, and a disk with no file yet.
\<close>

definition ing_sem_nome :: ingrediente where
  "ing_sem_nome =
     \<lparr>ingrediente.nome = [], ingrediente.carboidrato_por_g = 1 / 2,
      ingrediente.proteina_por_g = 0, ingrediente.gordura_por_g = 0,
      ingrediente.fibra_por_g = 0, ingrediente.sodio_por_g = 0\<rparr>"

definition Mistura :: receita where
  "Mistura =
     \<lparr>receita.nome = ''Mistura'', receita.ingredientes = [(ing_sem_nome, 10), (ing_A, 20)],
      receita.rendimento_total = 30\<rparr>"

definition app_exemplo :: nutrition_app where
  "app_exemplo =
     \<lparr>nutrition_app.ingredientes = [ing_sem_nome, ing_A, ing_B],
      nutrition_app.receitas = [Mistura, Rice],
      nutrition_app.ingrediente_selecionado = None\<rparr>"

definition disco_vazio :: disco where
  "disco_vazio = \<lparr>INGREDIENTES_FILE = None, RECEITAS_FILE = None\<rparr>"

text \<open>A stored recipe whose second pair names an ingredient that no catalog entry has.\<close>

definition item_pendente :: receita_dict where
  "item_pendente =
     \<lparr>receita_dict.nome = ''Rice'',
      receita_dict.ingredientes = [(''A'', 500), (''Z'', 7), (''B'', 500)],
      receita_dict.rendimento_total = Some 1000\<rparr>"

section \<open>The loops as sums\<close>

lemma laco_ingredientes_somas:
  "laco_ingredientes f t xs =
     \<lparr>totais.carboidratos = totais.carboidratos t + (\<Sum>(ing, qtd)\<leftarrow>xs. qtd * f * ingrediente.carboidrato_por_g ing),
      totais.proteina = totais.proteina t + (\<Sum>(ing, qtd)\<leftarrow>xs. qtd * f * ingrediente.proteina_por_g ing),
      totais.gordura = totais.gordura t + (\<Sum>(ing, qtd)\<leftarrow>xs. qtd * f * ingrediente.gordura_por_g ing),
      totais.fibra = totais.fibra t + (\<Sum>(ing, qtd)\<leftarrow>xs. qtd * f * ingrediente.fibra_por_g ing),
      totais.sodio = totais.sodio t + (\<Sum>(ing, qtd)\<leftarrow>xs. qtd * f * ingrediente.sodio_por_g ing),
      totais.calorias = totais.calorias t + (\<Sum>(ing, qtd)\<leftarrow>xs. qtd * f * kcal_por_g ing)\<rparr>"
proof (induction xs arbitrary: t)
  case Nil
  then show ?case by simp
next
  case (Cons p xs)
  obtain ing qtd where p: "p = (ing, qtd)" by (cases p)
  show ?case
    by (simp add: Cons.IH p somar_ingrediente_def Let_def kcal_por_g_def algebra_simps)
qed

lemma laco_ingredientes_mais:
  "laco_ingredientes (porcao / receita.rendimento_total r) t (receita.ingredientes r) =
     mais t (somas [(r, porcao)])"
  by (simp add: laco_ingredientes_somas mais_def somas_def soma_def contribuicao_def)

lemma somas_Cons: "somas (rp # rps) = mais (somas [rp]) (somas rps)"
  by (simp add: somas_def soma_def mais_def)

lemma mais_assoc: "mais (mais a b) c = mais a (mais b c)"
  by (simp add: mais_def)

lemma laco_receitas_Inr:
  "\<forall>(r, p)\<in>set rps. 0 < receita.rendimento_total r \<Longrightarrow>
   laco_receitas t rps = Inr (mais t (somas rps))"
proof (induction rps arbitrary: t)
  case Nil
  then show ?case by (simp add: mais_def somas_def soma_def)
next
  case (Cons rp rps)
  obtain r p where rp: "rp = (r, p)" by (cases rp)
  from Cons.prems rp have pos: "0 < receita.rendimento_total r"
    and rest: "\<forall>(r, p)\<in>set rps. 0 < receita.rendimento_total r" by auto
  show ?case
    using pos by (simp add: rp Cons.IH [OF rest] laco_ingredientes_mais mais_assoc somas_Cons [of "(r, p)" rps])
qed

lemma laco_receitas_Inl:
  "(\<exists>e. laco_receitas t rps = Inl e) \<longleftrightarrow> (\<exists>(r, p)\<in>set rps. receita.rendimento_total r \<le> 0)"
  by (induction t rps rule: laco_receitas.induct) auto

lemma round2_grade: "\<exists>k::int. round2 v = of_int k / 100"
  unfolding round2_def Let_def by blast

lemma round2_aux:
  fixes s :: rat and f :: int
  assumes "of_int f \<le> s" and "s < of_int f + 1"
  shows "\<bar>of_int (if s - of_int f < 1 / 2 then f
                 else if 1 / 2 < s - of_int f then f + 1
                 else if even f then f else f + 1) / 100 - s / 100\<bar> \<le> 1 / 200"
  using assms by (auto simp: abs_le_iff field_simps)

lemma round2_perto: "\<bar>round2 v - v\<bar> \<le> 1 / 200"
proof -
  have "of_int \<lfloor>v * 100\<rfloor> \<le> v * 100" and "v * 100 < of_int \<lfloor>v * 100\<rfloor> + 1"
    using floor_correct [of "v * 100"] by simp_all
  from round2_aux [OF this] show ?thesis
    by (simp add: round2_def Let_def)
qed

lemma calcular_Inr_positivo:
  assumes "calcular_por_porcao rps = Inr res"
  shows "\<forall>(r, p)\<in>set rps. 0 < receita.rendimento_total r"
proof -
  have "\<not> (\<exists>e. laco_receitas totais_iniciais rps = Inl e)"
    using assms by (auto simp: calcular_por_porcao_def split: sum.splits)
  then show ?thesis
    unfolding laco_receitas_Inl by (auto simp: not_le)
qed

lemma mais_iniciais: "mais totais_iniciais t = t"
  by (simp add: mais_def totais_iniciais_def)

lemma calcular_positivo:
  assumes "\<forall>(r, p)\<in>set rps. 0 < receita.rendimento_total r"
  shows "calcular_por_porcao rps = Inr (arredondar (somas rps))"
  by (simp add: calcular_por_porcao_def laco_receitas_Inr [OF assms] mais_iniciais)

lemma soma_lista_dobro:
  fixes xs :: "(ingrediente \<times> rat) list"
  shows "(\<Sum>(ing, qtd)\<leftarrow>xs. qtd * (2 * P / Y) * c ing) = 2 * (\<Sum>(ing, qtd)\<leftarrow>xs. qtd * (P / Y) * c ing)"
  by (induction xs) (auto simp: algebra_simps)

lemma contribuicao_dobro: "contribuicao c (R, 2 * P) = 2 * contribuicao c (R, P)"
  unfolding contribuicao_def prod.case by (rule soma_lista_dobro)

lemma somas_dobro: "somas [(R, 2 * P)] = vezes 2 (somas [(R, P)])"
  by (simp add: somas_def soma_def vezes_def contribuicao_dobro)

section \<open>Claims about the calculator\<close>

text \<open>
  C1 (amended). For the recipe Rice of yield 1000 g, with 500 g of ingredient A
  (carbohydrate 0.8, protein 0.1, fat 0.05, fiber 0.02, sodium 1 per gram) and 500 g of
  ingredient B (all coefficients 0), the calculator on the single pair (Rice, 200 g)
  returns carbohydrate 80, protein 10, fat 5, fiber 2, sodium 100 and calories
  \<open>80 * 4 + 10 * 4 + 5 * 9 = 405\<close>.
\<close>

theorem calcular_por_porcao_Rice:
  "calcular_por_porcao [(Rice, 200)] =
     Inr \<lparr>totais.carboidratos = 80, totais.proteina = 10, totais.gordura = 5,
          totais.fibra = 2, totais.sodio = 100, totais.calorias = 405\<rparr>"
  by code_simp

text \<open>C1 as stated gives 725 for the calories; that record is not what the calculator returns.\<close>

theorem calcular_por_porcao_Rice_counterexample:
  "calcular_por_porcao [(Rice, 200)] \<noteq>
     Inr \<lparr>totais.carboidratos = 80, totais.proteina = 10, totais.gordura = 5,
          totais.fibra = 2, totais.sodio = 100, totais.calorias = 725\<rparr>"
  by code_simp











section \<open>Saving, loading and deleting\<close>

lemma carregar_salvar_ingredientes: "carregar_ingredientes (salvar_ingredientes ings d) = ings"
  by (simp add: carregar_ingredientes_def salvar_ingredientes_def to_dict_def o_def map_idI)

lemma find_nome_Some:
  "n \<in> ingrediente.nome ` set ings \<Longrightarrow> \<exists>i. find (\<lambda>i. ingrediente.nome i = n) ings = Some i \<and> ingrediente.nome i = n \<and> i \<in> set ings"
  by (induction ings) auto

lemma find_nome_None:
  "n \<notin> ingrediente.nome ` set ings \<Longrightarrow> find (\<lambda>i. ingrediente.nome i = n) ings = None"
  by (induction ings) auto

lemma ingredientes_receita_nomes:
  "map (\<lambda>(i, q). (ingrediente.nome i, q)) (ingredientes_receita ings pares) =
     filter (\<lambda>(n, q). n \<in> ingrediente.nome ` set ings) pares"
proof (induction pares)
  case Nil
  then show ?case by simp
next
  case (Cons p pares)
  obtain n q where p: "p = (n, q)" by (cases p)
  show ?case
  proof (cases "n \<in> ingrediente.nome ` set ings")
    case True
    from find_nome_Some [OF True] obtain i
      where "find (\<lambda>i. ingrediente.nome i = n) ings = Some i" "ingrediente.nome i = n" by blast
    with True Cons.IH show ?thesis by (simp add: p)
  next
    case False
    with find_nome_None [OF False] Cons.IH show ?thesis by (simp add: p)
  qed
qed

lemma ingredientes_receita_find:
  "(i, q) \<in> set (ingredientes_receita ings pares) \<Longrightarrow>
     find (\<lambda>j. ingrediente.nome j = ingrediente.nome i) ings = Some i \<and>
     (ingrediente.nome i, q) \<in> set pares"
proof (induction pares)
  case Nil
  then show ?case by simp
next
  case (Cons p pares)
  obtain n q' where p: "p = (n, q')" by (cases p)
  show ?case
  proof (cases "find (\<lambda>j. ingrediente.nome j = n) ings")
    case None
    with Cons p show ?thesis by auto
  next
    case (Some j)
    then have "ingrediente.nome j = n" by (auto simp: find_Some_iff)
    with Cons p Some show ?thesis by auto
  qed
qed

lemma find_Some_P: "find P xs = Some x \<Longrightarrow> P x \<and> x \<in> set xs"
  by (induction xs) (auto split: if_splits)

lemma remove1_find:
  "find P xs = Some x \<Longrightarrow> remove1 x xs = takeWhile (\<lambda>y. \<not> P y) xs @ tl (dropWhile (\<lambda>y. \<not> P y) xs)"
  by (induction xs) (auto split: if_splits dest: find_Some_P)

lemma remove1_find_distinct:
  "find (\<lambda>i. f i = n) xs = Some x \<Longrightarrow> distinct (map f xs) \<Longrightarrow> n \<notin> f ` set (remove1 x xs)"
  by (induction xs) (auto split: if_splits dest: find_Some_P)

lemma map_carregar_item_nomes:
  assumes "\<forall>r\<in>set rs. \<forall>(i, q)\<in>set (receita.ingredientes r). ingrediente.nome i \<in> ingrediente.nome ` set ings"
  shows "map (\<lambda>r. map (\<lambda>(i, q). (ingrediente.nome i, q)) (receita.ingredientes r))
           (map (carregar_item ings) (map salvar_item rs)) =
         map (\<lambda>r. map (\<lambda>(i, q). (ingrediente.nome i, q)) (receita.ingredientes r)) rs"
proof -
  have "filter (\<lambda>(n, q). n \<in> ingrediente.nome ` set ings)
          (map (\<lambda>(i, q). (ingrediente.nome i, q)) (receita.ingredientes r)) =
        map (\<lambda>(i, q). (ingrediente.nome i, q)) (receita.ingredientes r)" if "r \<in> set rs" for r
    using assms that by (auto simp: filter_id_conv)
  then show ?thesis
    by (simp add: carregar_item_def salvar_item_def Let_def ingredientes_receita_nomes)
qed

section \<open>Claims about the catalogs\<close>

text \<open>
  C6 (amended). For a non-empty name n that some entry of the catalog has, a confirmed
  deletion in the window removes the first catalog entry named n (none is left when the
  names are unique), removes every pair whose ingredient is named n from every recipe
  and leaves every other pair in place and in order, and writes both files from the new
  lists. \<^verbatim>\<open>DataManager.deletar_ingrediente\<close> rewrites the ingredient file without
  the entries named n and leaves the recipe file as it is.
\<close>

theorem deletar_ingrediente_cascata:
  assumes "n \<noteq> []" and "resposta" and "n \<in> ingrediente.nome ` set (nutrition_app.ingredientes app)"
  shows "(\<exists>app' d'. NutritionApp_deletar_ingrediente n resposta (app, d) = (app', d') \<and>
           nutrition_app.ingredientes app' =
             takeWhile (\<lambda>i. ingrediente.nome i \<noteq> n) (nutrition_app.ingredientes app) @
             tl (dropWhile (\<lambda>i. ingrediente.nome i \<noteq> n) (nutrition_app.ingredientes app)) \<and>
           (distinct (map ingrediente.nome (nutrition_app.ingredientes app)) \<longrightarrow>
              n \<notin> ingrediente.nome ` set (nutrition_app.ingredientes app')) \<and>
           nutrition_app.receitas app' =
             map (\<lambda>r. r\<lparr>receita.ingredientes :=
                          filter (\<lambda>(i, qtd). ingrediente.nome i \<noteq> n) (receita.ingredientes r)\<rparr>)
                 (nutrition_app.receitas app) \<and>
           d' = salvar_receitas (nutrition_app.receitas app')
                  (salvar_ingredientes (nutrition_app.ingredientes app') d)) \<and>
         carregar_ingredientes (DataManager_deletar_ingrediente n d) =
           filter (\<lambda>i. ingrediente.nome i \<noteq> n) (carregar_ingredientes d) \<and>
         RECEITAS_FILE (DataManager_deletar_ingrediente n d) = RECEITAS_FILE d"
proof -
  from find_nome_Some [OF assms(3)] obtain ing
    where f: "find (\<lambda>i. ingrediente.nome i = n) (nutrition_app.ingredientes app) = Some ing"
    by blast
  have "RECEITAS_FILE (DataManager_deletar_ingrediente n d) = RECEITAS_FILE d"
    by (simp add: DataManager_deletar_ingrediente_def salvar_ingredientes_def)
  then show ?thesis
    using assms(1,2) f remove1_find [OF f] remove1_find_distinct [OF f]
    by (simp add: NutritionApp_deletar_ingrediente_def Let_def DataManager_deletar_ingrediente_def
        carregar_salvar_ingredientes)
qed

theorem deletar_ingrediente_cascata_witness:
  "''A'' \<noteq> [] \<and> ''A'' \<in> ingrediente.nome ` set (nutrition_app.ingredientes app_exemplo) \<and>
   fst (NutritionApp_deletar_ingrediente ''A'' True (app_exemplo, disco_vazio)) =
     \<lparr>nutrition_app.ingredientes = [ing_sem_nome, ing_B],
      nutrition_app.receitas =
        [Mistura\<lparr>receita.ingredientes := [(ing_sem_nome, 10)]\<rparr>,
         Rice\<lparr>receita.ingredientes := [(ing_B, 500)]\<rparr>],
      nutrition_app.ingrediente_selecionado = None\<rparr>"
proof -
  have h1: "''A'' \<noteq> []" by simp
  have h3: "''A'' \<in> ingrediente.nome ` set (nutrition_app.ingredientes app_exemplo)"
    by (simp add: app_exemplo_def ing_A_def)
  have e: "fst (NutritionApp_deletar_ingrediente ''A'' True (app_exemplo, disco_vazio)) =
     \<lparr>nutrition_app.ingredientes = [ing_sem_nome, ing_B],
      nutrition_app.receitas =
        [Mistura\<lparr>receita.ingredientes := [(ing_sem_nome, 10)]\<rparr>,
         Rice\<lparr>receita.ingredientes := [(ing_B, 500)]\<rparr>],
      nutrition_app.ingrediente_selecionado = None\<rparr>"
    by (simp add: NutritionApp_deletar_ingrediente_def app_exemplo_def Mistura_def Rice_def
        ing_A_def ing_B_def ing_sem_nome_def Let_def)
  from deletar_ingrediente_cascata [OF h1 _ h3, of True disco_vazio] show ?thesis using h1 h3 e by simp
qed

text \<open>
  C6 as stated covers every name: for the ingredient whose name is the empty string the
  handler returns at its first guard, and the catalog and the recipes keep it.
\<close>

theorem deletar_ingrediente_cascata_counterexample:
  "ingrediente.nome ing_sem_nome = [] \<and>
   ing_sem_nome \<in> set (nutrition_app.ingredientes app_exemplo) \<and>
   (ing_sem_nome, 10) \<in> set (receita.ingredientes Mistura) \<and>
   Mistura \<in> set (nutrition_app.receitas app_exemplo) \<and>
   NutritionApp_deletar_ingrediente [] True (app_exemplo, disco_vazio) = (app_exemplo, disco_vazio)"
  by (simp add: NutritionApp_deletar_ingrediente_def app_exemplo_def Mistura_def ing_sem_nome_def)

text \<open>
  C7. When every recipe refers only to names of the catalog, saving both catalogs and
  loading them again gives back each ingredient (its name and five coefficients) and,
  for each recipe, its name, its list of (ingredient name, quantity) pairs and its
  yield.
\<close>

theorem salvar_carregar_ida_e_volta:
  assumes "\<forall>r\<in>set rs. \<forall>(i, q)\<in>set (receita.ingredientes r). ingrediente.nome i \<in> ingrediente.nome ` set ings"
    and "d' = salvar_receitas rs (salvar_ingredientes ings d)"
  shows "carregar_ingredientes d' = ings \<and>
         map receita.nome (carregar_receitas (carregar_ingredientes d') d') = map receita.nome rs \<and>
         map receita.rendimento_total (carregar_receitas (carregar_ingredientes d') d') =
           map receita.rendimento_total rs \<and>
         map (\<lambda>r. map (\<lambda>(i, q). (ingrediente.nome i, q)) (receita.ingredientes r))
             (carregar_receitas (carregar_ingredientes d') d') =
           map (\<lambda>r. map (\<lambda>(i, q). (ingrediente.nome i, q)) (receita.ingredientes r)) rs"
proof -
  have a: "carregar_ingredientes d' = ings"
    using carregar_salvar_ingredientes [of ings d]
    by (simp add: assms(2) salvar_receitas_def carregar_ingredientes_def)
  have b: "carregar_receitas ings d' = map (carregar_item ings) (map salvar_item rs)"
    by (simp add: assms(2) salvar_receitas_def carregar_receitas_def)
  have c: "map receita.nome (map (carregar_item ings) (map salvar_item rs)) = map receita.nome rs"
    by (simp add: carregar_item_def salvar_item_def Let_def o_def)
  have e: "map receita.rendimento_total (map (carregar_item ings) (map salvar_item rs)) =
             map receita.rendimento_total rs"
    by (simp add: carregar_item_def salvar_item_def Let_def o_def)
  show ?thesis
    unfolding a b using c e map_carregar_item_nomes [OF assms(1)] by simp
qed

theorem salvar_carregar_ida_e_volta_witness:
  "carregar_ingredientes (salvar_receitas [Mistura, Rice] (salvar_ingredientes [ing_sem_nome, ing_A, ing_B] disco_vazio)) =
     [ing_sem_nome, ing_A, ing_B] \<and>
   carregar_receitas [ing_sem_nome, ing_A, ing_B]
     (salvar_receitas [Mistura, Rice] (salvar_ingredientes [ing_sem_nome, ing_A, ing_B] disco_vazio)) =
     [Mistura, Rice]"
proof -
  have h: "\<forall>r\<in>set [Mistura, Rice]. \<forall>(i, q)\<in>set (receita.ingredientes r).
             ingrediente.nome i \<in> ingrediente.nome ` set [ing_sem_nome, ing_A, ing_B]"
    by (simp add: Mistura_def Rice_def)
  have e: "carregar_receitas [ing_sem_nome, ing_A, ing_B]
     (salvar_receitas [Mistura, Rice] (salvar_ingredientes [ing_sem_nome, ing_A, ing_B] disco_vazio)) =
     [Mistura, Rice]"
    by (simp add: carregar_receitas_def salvar_receitas_def salvar_ingredientes_def carregar_item_def
        salvar_item_def Mistura_def Rice_def ing_A_def ing_B_def ing_sem_nome_def Let_def)
  from salvar_carregar_ida_e_volta [OF h refl, of disco_vazio] show ?thesis using e by simp
qed

text \<open>
  C8. Loading the recipes keeps, for each stored record and in the stored order, exactly
  the pairs whose name some catalog entry has, each resolved to the first entry of that
  name, and drops the others; the loader returns its list and no error.
\<close>

theorem carregar_receitas_descarta:
  assumes "RECEITAS_FILE d = Some dados"
  shows "map (\<lambda>r. map (\<lambda>(i, q). (ingrediente.nome i, q)) (receita.ingredientes r))
             (carregar_receitas ings d) =
           map (\<lambda>item. filter (\<lambda>(n, q). n \<in> ingrediente.nome ` set ings)
                          (receita_dict.ingredientes item)) dados \<and>
         map receita.nome (carregar_receitas ings d) = map receita_dict.nome dados \<and>
         (\<forall>r\<in>set (carregar_receitas ings d). \<forall>(i, q)\<in>set (receita.ingredientes r).
            find (\<lambda>j. ingrediente.nome j = ingrediente.nome i) ings = Some i)"
proof -
  have a: "carregar_receitas ings d = map (carregar_item ings) dados"
    by (simp add: carregar_receitas_def assms)
  have b: "\<forall>r\<in>set (map (carregar_item ings) dados). \<forall>(i, q)\<in>set (receita.ingredientes r).
            find (\<lambda>j. ingrediente.nome j = ingrediente.nome i) ings = Some i"
    by (auto simp: carregar_item_def Let_def dest: ingredientes_receita_find)
  show ?thesis
    unfolding a using b
    by (simp add: carregar_item_def Let_def o_def ingredientes_receita_nomes)
qed

theorem carregar_receitas_descarta_witness:
  "carregar_receitas [ing_A, ing_B] (disco_vazio\<lparr>RECEITAS_FILE := Some [item_pendente]\<rparr>) = [Rice] \<and>
   map (\<lambda>r. map (\<lambda>(i, q). (ingrediente.nome i, q)) (receita.ingredientes r))
       (carregar_receitas [ing_A, ing_B] (disco_vazio\<lparr>RECEITAS_FILE := Some [item_pendente]\<rparr>)) =
     [[(''A'', 500), (''B'', 500)]]"
proof -
  have h: "RECEITAS_FILE (disco_vazio\<lparr>RECEITAS_FILE := Some [item_pendente]\<rparr>) = Some [item_pendente]"
    by simp
  have e: "carregar_receitas [ing_A, ing_B] (disco_vazio\<lparr>RECEITAS_FILE := Some [item_pendente]\<rparr>) = [Rice]"
    by (simp add: carregar_receitas_def carregar_item_def item_pendente_def Rice_def ing_A_def
        ing_B_def Let_def)
  from carregar_receitas_descarta [OF h, of "[ing_A, ing_B]"] show ?thesis
    using e by (simp add: item_pendente_def ing_A_def ing_B_def)
qed

text \<open>
  C9. \<^verbatim>\<open>DataManager.deletar_receita\<close> raises TypeError for every name, at its call of
  \<^verbatim>\<open>carregar_receitas\<close> without the argument, and leaves the disk as it was.
\<close>

theorem deletar_receita_TypeError: "deletar_receita n d = (Inl TypeError, d)"
  by (simp add: deletar_receita_def chamar_carregar_receitas_def)

section \<open>Claims about the report\<close>

lemma ligar_Inr: "ligar m f = Inr y \<Longrightarrow> \<exists>x. m = Inr x \<and> f x = Inr y"
  by (cases m) (simp_all add: ligar_def)

lemma gerar_tabela_kcal:
  assumes "gerar_tabela_nutricional dados VD_FILE = Inr tab"
  shows "tabela.kcal tab = totais.carboidratos dados * 4 + totais.proteina dados * 4 +
           totais.gordura dados * 9 \<and>
         tabela.kj tab = tabela.kcal tab * (4184 / 1000)"
  using assms unfolding gerar_tabela_nutricional_def Let_def
  by (auto dest!: ligar_Inr split: option.splits)

lemma gerar_tabela_calorias:
  "gerar_tabela_nutricional (dados\<lparr>totais.calorias := c\<rparr>) VD_FILE = gerar_tabela_nutricional dados VD_FILE"
  by (simp add: gerar_tabela_nutricional_def)

lemma vd_padrao_simps:
  "vd_padrao ''carboidratos'' = Some 300" "vd_padrao ''proteinas'' = Some 75"
  "vd_padrao ''gorduras_totais'' = Some 55" "vd_padrao ''valor_energetico'' = Some 2000"
  "vd_padrao ''fibras'' = Some 30" "vd_padrao ''sodio'' = Some 5000"
  by (simp_all add: vd_padrao_def)

lemma gerar_exemplo:
  "gerar_tabela_nutricional
     \<lparr>totais.carboidratos = 0, totais.proteina = 0, totais.gordura = 0,
      totais.fibra = 0, totais.sodio = 0, totais.calorias = 2 / 100\<rparr> None =
   Inr \<lparr>tabela.kcal = 0, tabela.kj = 0,
        tabela.porcentagens =
          \<lparr>porcentagens.carboidratos = 0, porcentagens.proteina = 0, porcentagens.gordura = 0,
           porcentagens.kcal = 0, porcentagens.fibra = 0, porcentagens.sodio = 0\<rparr>,
        tabela.rodape_kcal = 2000, tabela.rodape_kj = 8368\<rparr>"
  by (simp add: gerar_tabela_nutricional_def ValoresDiarios_carregar_def vd_padrao_simps
      porcentagem_def ligar_def py_int_def)

lemma calcular_Unidade:
  "calcular_por_porcao [(Unidade, 1 / 256)] =
     Inr \<lparr>totais.carboidratos = 0, totais.proteina = 0, totais.gordura = 0,
          totais.fibra = 0, totais.sodio = 0, totais.calorias = 2 / 100\<rparr>"
  by code_simp



end
